theory Spec2Isabelle
  imports Main "HOL-Library.AList"
begin

section \<open>The domain type definition resolver (domain\_typedef.py)\<close>

text \<open>
  A shallow embedding of the class \<open>DomainTypedef\<close>. A Python dictionary read from the
  JSON document is an association list looked up with \<^const>\<open>map_of\<close>; the definition
  record of one version is a record of optional fields (\<open>None\<close> for a key that is absent).
  A method that mutates the object returns its result paired with the object afterwards,
  so that what an exception leaves behind is visible. Logging is left out: it never
  changes a result.
\<close>

subsection \<open>Module constants\<close>

definition CREATE_DOMAIN :: string where
  "CREATE_DOMAIN = ''createDomain''"

definition DISCOVER_DOMAIN :: string where
  "DISCOVER_DOMAIN = ''discoverDomain''"

definition NOT_SUPPORTED :: string where
  "NOT_SUPPORTED = ''NOT_SUPPORTED''"

definition RESTRICTED_JRF_TEMPLATE_REGEX :: string where
  "RESTRICTED_JRF_TEMPLATE_REGEX = ''^(Oracle Restricted JRF)$''"

definition key_mapping_table :: "(string \<times> string) list" where
  "key_mapping_table =
    [(''apps'', ''/Application''),
     (''coherence-clusters'', ''/CoherenceClusterSystemResource''),
     (''datasources'', ''/JDBCSystemResource''),
     (''file-stores'', ''/FileStore''),
     (''jms'', ''/JMSSystemResource''),
     (''jms-server'', ''/JMSServer''),
     (''shared-libraries'', ''/Library''),
     (''shutdown-classes'', ''/ShutdownClass''),
     (''startup-classes'', ''/StartupClass''),
     (''wldf'', ''/WLDFSystemResource'')]"

subsection \<open>Exceptions\<close>

text \<open>
  An exception is a value: the class that \<open>exception_helper\<close> builds, the message key and
  the string arguments of the message (the exit code \<open>ARG_VALIDATION_ERROR\<close> of every
  \<open>create_cla_exception\<close> call of this class is the same and is not repeated).
  \<open>KeyError\<close> is Python's own error for subscripting a dictionary with a missing key,
  \<open>RegexError\<close> the error of \<open>re.match\<close> on a pattern that does not compile.
\<close>

datatype error =
    CLAException string "string list"
  | CreateException string "string list"
  | DiscoverException string "string list"
  | KeyError string
  | RegexError string

text \<open>The specification's \<open>ConfigError\<close>: the three exception classes of the tool.\<close>

fun ConfigError :: "error \<Rightarrow> bool" where
  "ConfigError (CLAException k args) = True"
| "ConfigError (CreateException k args) = True"
| "ConfigError (DiscoverException k args) = True"
| "ConfigError (KeyError k) = False"
| "ConfigError (RegexError p) = False"

subsection \<open>Data\<close>

record post_create_script =
  windowsScript :: "string option"
  unixScript :: "string option"

record typedef_definition =
  baseTemplate :: "string option"
  extensionTemplates :: "string list option"
  customExtensionTemplates :: "string list option"
  serverGroupsToTarget :: "string list option"
  dynamicClusterServerGroupsToTarget :: "string list option"
  rcuSchemas :: "string list option"
  targeting :: "string option"
  postCreateDomainScript :: "post_create_script option"

text \<open>
  The parsed typedef document (\<open>_domain_typedefs_dict\<close>). The keys \<open>discover-filters\<close>
  and \<open>system-elements\<close> are the fields \<open>doc_discover_filters\<close> and
  \<open>doc_system_elements\<close>.
\<close>

record typedefs_dict =
  versions :: "(string \<times> string) list option"
  definitions :: "(string \<times> typedef_definition) list option"
  topologyProfile :: "string option"
  doc_discover_filters :: "(string \<times> string list) list option"
  doc_system_elements :: "(string \<times> string list) list option"

text \<open>
  The collaborators are parameters: \<open>WebLogicHelper\<close> as a record of what its methods
  answer, the model context as its \<open>replace_token_string\<close> function, the members of the
  enumerations \<open>TargetingType\<close> and \<open>TopologyProfile\<close> as lists, and \<open>re.match\<close> as a
  function from a pattern and a string to \<open>Inr True\<close> (a match object), \<open>Inr False\<close>
  (\<open>None\<close>) or \<open>Inl\<close> (the pattern does not compile).
\<close>

record wls_helper =
  get_actual_weblogic_version :: string
  get_next_higher_order_version_number :: "string \<Rightarrow> string option"
  is_set_server_groups_supported :: bool
  is_topology_profile_supported :: bool
  get_weblogic_version :: string

type_synonym model_context = "string \<Rightarrow> string"

type_synonym re_match = "string \<Rightarrow> string \<Rightarrow> error + bool"

text \<open>The attributes of a constructed \<open>DomainTypedef\<close> object.\<close>

record domain_typedef_obj =
  program_name :: string
  domain_type :: string
  domain_typedef_filename :: string
  version_typedef_name :: string
  paths_resolved :: bool
  model_context :: "model_context option"
  domain_typedef :: typedef_definition
  targeting_type :: "string option"
  post_create_domain_script_dict :: "post_create_script option"
  discover_filters :: "(string \<times> string list) list"
  topology_profile :: "string option"

subsection \<open>Path resolution\<close>

text \<open>The loop that appends the resolved form of each template to \<open>resolved_templates\<close>.\<close>

fun resolve_templates :: "model_context \<Rightarrow> string list \<Rightarrow> string list \<Rightarrow> string list" where
  "resolve_templates ctx [] resolved_templates = resolved_templates"
| "resolve_templates ctx (extension_template # rest) resolved_templates =
     resolve_templates ctx rest (resolved_templates @ [ctx extension_template])"

definition resolve_definition :: "model_context \<Rightarrow> string \<Rightarrow> typedef_definition \<Rightarrow> typedef_definition" where
  "resolve_definition ctx base d =
     d\<lparr>baseTemplate := Some (ctx base),
       extensionTemplates :=
         (case extensionTemplates d of
            Some extension_templates \<Rightarrow> Some (resolve_templates ctx extension_templates [])
          | None \<Rightarrow> Some []),
       customExtensionTemplates :=
         (case customExtensionTemplates d of
            Some extension_templates \<Rightarrow> Some (resolve_templates ctx extension_templates [])
          | None \<Rightarrow> Some []),
       serverGroupsToTarget :=
         (case serverGroupsToTarget d of Some l \<Rightarrow> Some l | None \<Rightarrow> Some []),
       dynamicClusterServerGroupsToTarget :=
         (case dynamicClusterServerGroupsToTarget d of Some l \<Rightarrow> Some l | None \<Rightarrow> Some []),
       rcuSchemas :=
         (case rcuSchemas d of Some l \<Rightarrow> Some l | None \<Rightarrow> Some [])\<rparr>"

definition resolve_paths :: "domain_typedef_obj \<Rightarrow> (error + unit) \<times> domain_typedef_obj" where
  "resolve_paths self =
     (if \<not> paths_resolved self then
        (case model_context self of
           None \<Rightarrow> (Inl (CLAException ''WLSDPLY-12302'' []), self)
         | Some ctx \<Rightarrow>
            (case baseTemplate (domain_typedef self) of
               None \<Rightarrow>
                 (Inl (CLAException ''WLSDPLY-12303''
                        [domain_type self, domain_typedef_filename self, version_typedef_name self]),
                  self)
             | Some base \<Rightarrow>
                 (Inr (),
                  self\<lparr>domain_typedef := resolve_definition ctx base (domain_typedef self),
                       paths_resolved := True\<rparr>)))
      else (Inr (), self))"

definition set_model_context ::
  "model_context option \<Rightarrow> domain_typedef_obj \<Rightarrow> (error + unit) \<times> domain_typedef_obj" where
  "set_model_context new_context self =
     (case model_context self of
        None \<Rightarrow> resolve_paths (self\<lparr>model_context := new_context\<rparr>)
      | Some ctx \<Rightarrow> (Inr (), self))"

subsection \<open>Getters\<close>

text \<open>
  Subscripting the definition with a key: \<open>KeyError\<close> when the key is absent.
\<close>

definition subscript :: "string \<Rightarrow> 'a option \<Rightarrow> error + 'a" where
  "subscript key field = (case field of None \<Rightarrow> Inl (KeyError key) | Some v \<Rightarrow> Inr v)"

definition after_resolve_paths ::
  "(typedef_definition \<Rightarrow> error + 'a) \<Rightarrow> domain_typedef_obj \<Rightarrow> (error + 'a) \<times> domain_typedef_obj" where
  "after_resolve_paths read self =
     (case resolve_paths self of
        (Inl ex, self') \<Rightarrow> (Inl ex, self')
      | (Inr u, self') \<Rightarrow> (read (domain_typedef self'), self'))"

definition get_base_template :: "domain_typedef_obj \<Rightarrow> (error + string) \<times> domain_typedef_obj" where
  "get_base_template =
     after_resolve_paths (\<lambda>d. subscript ''baseTemplate'' (baseTemplate d))"

definition get_extension_templates ::
  "domain_typedef_obj \<Rightarrow> (error + string list) \<times> domain_typedef_obj" where
  "get_extension_templates =
     after_resolve_paths (\<lambda>d. subscript ''extensionTemplates'' (extensionTemplates d))"

definition get_custom_extension_templates ::
  "domain_typedef_obj \<Rightarrow> (error + string list) \<times> domain_typedef_obj" where
  "get_custom_extension_templates =
     after_resolve_paths (\<lambda>d. subscript ''customExtensionTemplates'' (customExtensionTemplates d))"

definition get_server_groups_to_target ::
  "domain_typedef_obj \<Rightarrow> (error + string list) \<times> domain_typedef_obj" where
  "get_server_groups_to_target =
     after_resolve_paths (\<lambda>d. subscript ''serverGroupsToTarget'' (serverGroupsToTarget d))"

definition get_dynamic_cluster_server_groups ::
  "domain_typedef_obj \<Rightarrow> (error + string list) \<times> domain_typedef_obj" where
  "get_dynamic_cluster_server_groups =
     after_resolve_paths
       (\<lambda>d. subscript ''dynamicClusterServerGroupsToTarget'' (dynamicClusterServerGroupsToTarget d))"

definition get_rcu_schemas :: "domain_typedef_obj \<Rightarrow> error + string list" where
  "get_rcu_schemas self = subscript ''rcuSchemas'' (rcuSchemas (domain_typedef self))"

definition requires_rcu :: "domain_typedef_obj \<Rightarrow> bool" where
  "requires_rcu self =
     (case rcuSchemas (domain_typedef self) of
        None \<Rightarrow> False
      | Some schemas \<Rightarrow> length schemas > 0)"

subsection \<open>The Restricted JRF test\<close>

text \<open>
  The body of the \<open>for\<close> loop returns in both branches of its \<open>if\<close>, so only the first
  template is ever examined; on an empty list the loop body never runs and the method
  ends without a \<open>return\<close>, which yields Python's \<open>None\<close> (here the result \<open>None\<close>).
\<close>

fun restricted_jrf_loop :: "re_match \<Rightarrow> string list \<Rightarrow> error + bool option" where
  "restricted_jrf_loop re [] = Inr None"
| "restricted_jrf_loop re (template # rest) =
     (case re RESTRICTED_JRF_TEMPLATE_REGEX template of
        Inl ex \<Rightarrow> Inl ex
      | Inr matched \<Rightarrow> (if matched then Inr (Some True) else Inr (Some False)))"

definition is_restricted_jrf_domain_type ::
  "re_match \<Rightarrow> domain_typedef_obj \<Rightarrow> (error + bool option) \<times> domain_typedef_obj" where
  "is_restricted_jrf_domain_type re self =
     (case get_extension_templates self of
        (Inl ex, self') \<Rightarrow> (Inl ex, self')
      | (Inr templates, self') \<Rightarrow> (restricted_jrf_loop re templates, self'))"

subsection \<open>Discover filters\<close>

fun filter_loop :: "re_match \<Rightarrow> string list \<Rightarrow> string \<Rightarrow> error + bool" where
  "filter_loop re [] name = Inr False"
| "filter_loop re (discover_filter # rest) name =
     (case re discover_filter name of
        Inl ex \<Rightarrow> Inl ex
      | Inr matched \<Rightarrow> (if matched then Inr True else filter_loop re rest name))"

text \<open>\<open>key\<close> is the folder path of the location, \<open>name\<close> the optional object name.\<close>

definition is_filtered ::
  "re_match \<Rightarrow> domain_typedef_obj \<Rightarrow> string \<Rightarrow> string option \<Rightarrow> error + bool" where
  "is_filtered re self key name =
     (case map_of (discover_filters self) key of
        Some filters \<Rightarrow>
          (case name of
             None \<Rightarrow> Inr True
           | Some n \<Rightarrow> filter_loop re filters n)
      | None \<Rightarrow> Inr False)"

text \<open>
  The translation of the old \<open>system-elements\<close> format runs while the object is being
  constructed; it reads the program name and the file name, which are passed here.
\<close>

definition convert_system_elements_key_name :: "string \<Rightarrow> string \<Rightarrow> string \<Rightarrow> error + string" where
  "convert_system_elements_key_name prog filename key =
     (case map_of key_mapping_table key of
        Some new_key \<Rightarrow> Inr new_key
      | None \<Rightarrow>
          (if prog = DISCOVER_DOMAIN
           then Inl (DiscoverException ''WLSDPLY-12316'' [key, filename])
           else Inl (CreateException ''WLSDPLY-12316'' [key, filename])))"

text \<open>
  The loop over \<open>iteritems()\<close>: the items come in the order of the association list, and
  \<open>discover_filters_dict[new_key] = value\<close> is \<^const>\<open>AList.update\<close>.
\<close>

fun translate_loop ::
  "string \<Rightarrow> string \<Rightarrow> (string \<times> string list) list \<Rightarrow> (string \<times> string list) list \<Rightarrow>
   error + (string \<times> string list) list" where
  "translate_loop prog filename [] discover_filters_dict = Inr discover_filters_dict"
| "translate_loop prog filename ((key, val) # rest) discover_filters_dict =
     (case convert_system_elements_key_name prog filename key of
        Inl ex \<Rightarrow> Inl ex
      | Inr new_key \<Rightarrow>
          translate_loop prog filename rest (AList.update new_key val discover_filters_dict))"

definition translate_system_elements ::
  "string \<Rightarrow> string \<Rightarrow> (string \<times> string list) list \<Rightarrow> error + (string \<times> string list) list" where
  "translate_system_elements prog filename system_elements_dict =
     translate_loop prog filename system_elements_dict []"

subsection \<open>Matching the version\<close>

text \<open>
  The \<open>while\<close> loop over the next higher versions. Nothing in the code bounds it, so it is
  a partial function: \<open>None\<close> is a loop that never ends, \<open>Some None\<close> a loop that ends with
  \<open>result\<close> still \<open>None\<close>, \<open>Some (Some r)\<close> a loop left by \<open>break\<close> with \<open>result = r\<close>.
\<close>

partial_function (option) higher_version_loop ::
  "(string \<Rightarrow> string option) \<Rightarrow> (string \<times> string) list \<Rightarrow> string option \<Rightarrow> string option option" where
  "higher_version_loop next_higher versions_dict new_version =
     (case new_version of
        None \<Rightarrow> Some None
      | Some v \<Rightarrow>
          (case map_of versions_dict v of
             Some r \<Rightarrow> Some (Some r)
           | None \<Rightarrow> higher_version_loop next_higher versions_dict (next_higher v)))"

definition match_version_typedef ::
  "wls_helper \<Rightarrow> string \<Rightarrow> string \<Rightarrow> (string \<times> string) list \<Rightarrow> (error + string) option" where
  "match_version_typedef helper dtype filename versions_dict =
     (if length versions_dict = 0
      then Some (Inl (CLAException ''WLSDPLY-12307'' [dtype, filename]))
      else
        (let wls_version = get_actual_weblogic_version helper;
             selected =
               (case map_of versions_dict wls_version of
                  Some r \<Rightarrow> Some (Inr r)
                | None \<Rightarrow>
                    (case higher_version_loop (get_next_higher_order_version_number helper)
                            versions_dict
                            (get_next_higher_order_version_number helper wls_version) of
                       None \<Rightarrow> None
                     | Some None \<Rightarrow>
                         Some (Inl (CLAException ''WLSDPLY-12309'' [dtype, filename, wls_version]))
                     | Some (Some r) \<Rightarrow> Some (Inr r)))
         in (case selected of
               None \<Rightarrow> None
             | Some (Inl ex) \<Rightarrow> Some (Inl ex)
             | Some (Inr result) \<Rightarrow>
                 (if result = NOT_SUPPORTED
                  then Some (Inl (CLAException ''WLSDPLY-12313'' [dtype, wls_version]))
                  else Some (Inr result)))))"

definition get_version_typedef ::
  "wls_helper \<Rightarrow> string \<Rightarrow> string \<Rightarrow> typedefs_dict \<Rightarrow> (error + string \<times> typedef_definition) option" where
  "get_version_typedef helper dtype filename doc =
     (case versions doc of
        None \<Rightarrow> Some (Inl (CLAException ''WLSDPLY-12304'' [dtype, filename]))
      | Some versions_dict \<Rightarrow>
          (case definitions doc of
             None \<Rightarrow> Some (Inl (CLAException ''WLSDPLY-12305'' [dtype, filename]))
           | Some defs \<Rightarrow>
               (case match_version_typedef helper dtype filename versions_dict of
                  None \<Rightarrow> None
                | Some (Inl ex) \<Rightarrow> Some (Inl ex)
                | Some (Inr name) \<Rightarrow>
                    (case map_of defs name of
                       Some result \<Rightarrow> Some (Inr (name, result))
                     | None \<Rightarrow>
                         Some (Inl (CLAException ''WLSDPLY-12306'' [dtype, filename, name]))))))"

subsection \<open>Targeting type, topology profile and the constructor\<close>

definition resolve_targeting_type ::
  "wls_helper \<Rightarrow> string list \<Rightarrow> string \<Rightarrow> typedef_definition \<Rightarrow> error + string option" where
  "resolve_targeting_type helper TargetingType filename d =
     (case targeting d of
        None \<Rightarrow> Inr None
      | Some targeting_text \<Rightarrow>
          (if is_set_server_groups_supported helper
           then Inl (CLAException ''WLSDPLY-12311''
                       [targeting_text, filename, get_weblogic_version helper])
           else if targeting_text \<notin> set TargetingType
           then Inl (CLAException ''WLSDPLY-12312'' [targeting_text, filename])
           else Inr (Some targeting_text)))"

definition resolve_topology_profile ::
  "wls_helper \<Rightarrow> string list \<Rightarrow> string \<Rightarrow> typedefs_dict \<Rightarrow> error + string option" where
  "resolve_topology_profile helper TopologyProfile filename doc =
     (case topologyProfile doc of
        None \<Rightarrow> Inr None
      | Some profile_text \<Rightarrow>
          (if \<not> is_topology_profile_supported helper
           then Inl (CLAException ''WLSDPLY-12314''
                       [profile_text, filename, get_weblogic_version helper])
           else if profile_text \<notin> set TopologyProfile
           then Inl (CLAException ''WLSDPLY-12315'' [profile_text, filename])
           else Inr (Some profile_text)))"

definition build_discover_filters ::
  "string \<Rightarrow> string \<Rightarrow> typedefs_dict \<Rightarrow> error + (string \<times> string list) list" where
  "build_discover_filters prog filename doc =
     (case doc_discover_filters doc of
        Some filters \<Rightarrow> Inr filters
      | None \<Rightarrow>
          (case doc_system_elements doc of
             Some system_elements \<Rightarrow> translate_system_elements prog filename system_elements
           | None \<Rightarrow> Inr []))"

text \<open>
  The constructor, from the point where the document has been found and parsed:
  \<open>filename\<close> is what \<open>find_config_path\<close> answered and \<open>doc\<close> what the parser returned.
\<close>

definition DomainTypedef_init ::
  "wls_helper \<Rightarrow> string list \<Rightarrow> string list \<Rightarrow> string \<Rightarrow> string \<Rightarrow> string \<Rightarrow> typedefs_dict \<Rightarrow>
   (error + domain_typedef_obj) option" where
  "DomainTypedef_init helper TargetingType TopologyProfile filename prog dtype doc =
     (case get_version_typedef helper dtype filename doc of
        None \<Rightarrow> None
      | Some (Inl ex) \<Rightarrow> Some (Inl ex)
      | Some (Inr (name, d)) \<Rightarrow>
          Some
           (case resolve_targeting_type helper TargetingType filename d of
              Inl ex \<Rightarrow> Inl ex
            | Inr tt \<Rightarrow>
                (case build_discover_filters prog filename doc of
                   Inl ex \<Rightarrow> Inl ex
                 | Inr filters \<Rightarrow>
                     (case resolve_topology_profile helper TopologyProfile filename doc of
                        Inl ex \<Rightarrow> Inl ex
                      | Inr tp \<Rightarrow>
                          Inr \<lparr>program_name = prog,
                               domain_type = dtype,
                               domain_typedef_filename = filename,
                               version_typedef_name = name,
                               paths_resolved = False,
                               model_context = None,
                               domain_typedef = d,
                               targeting_type = tt,
                               post_create_domain_script_dict = postCreateDomainScript d,
                               discover_filters = filters,
                               topology_profile = tp\<rparr>))))"

subsection \<open>Sequences of calls\<close>

text \<open>
  The methods that can change the object, and the object after a sequence of calls
  (whether a call returned or raised). The other methods change it only through these.
\<close>

datatype call =
    Set_model_context "model_context option"
  | Get_base_template
  | Get_extension_templates
  | Get_custom_extension_templates
  | Get_server_groups_to_target
  | Get_dynamic_cluster_server_groups

fun after_call :: "call \<Rightarrow> domain_typedef_obj \<Rightarrow> domain_typedef_obj" where
  "after_call (Set_model_context c) self = snd (set_model_context c self)"
| "after_call Get_base_template self = snd (get_base_template self)"
| "after_call Get_extension_templates self = snd (get_extension_templates self)"
| "after_call Get_custom_extension_templates self = snd (get_custom_extension_templates self)"
| "after_call Get_server_groups_to_target self = snd (get_server_groups_to_target self)"
| "after_call Get_dynamic_cluster_server_groups self = snd (get_dynamic_cluster_server_groups self)"

fun after_calls :: "call list \<Rightarrow> domain_typedef_obj \<Rightarrow> domain_typedef_obj" where
  "after_calls [] self = self"
| "after_calls (c # cs) self = after_calls cs (after_call c self)"

subsection \<open>The successive higher versions, as the specification counts them\<close>

text \<open>
  Candidate number \<open>n\<close> of the search that starts at version \<open>v\<close>: the version reached by
  asking for the next higher version \<open>n + 1\<close> times, \<open>None\<close> once the oracle has answered
  none.
\<close>

fun higher_candidate :: "(string \<Rightarrow> string option) \<Rightarrow> string \<Rightarrow> nat \<Rightarrow> string option" where
  "higher_candidate next_higher v 0 = next_higher v"
| "higher_candidate next_higher v (Suc n) =
     (case next_higher v of
        None \<Rightarrow> None
      | Some w \<Rightarrow> higher_candidate next_higher w n)"

subsection \<open>Example inputs\<close>

text \<open>A context that replaces the token \<open>@@ORACLE_HOME@@\<close> at the start of a path.\<close>

definition example_context :: model_context where
  "example_context t =
     (if take 15 t = ''@@ORACLE_HOME@@'' then ''/u01'' @ drop 15 t else t)"

definition example_helper :: wls_helper where
  "example_helper =
     \<lparr>get_actual_weblogic_version = ''12.2.1.3'',
      get_next_higher_order_version_number =
        (\<lambda>v. if v = ''12.2.1.3'' then Some ''12.2.1.4''
             else if v = ''12.2.1.4'' then Some ''14.1.1''
             else None),
      is_set_server_groups_supported = False,
      is_topology_profile_supported = True,
      get_weblogic_version = ''12.2.1.3''\<rparr>"

definition example_definition :: typedef_definition where
  "example_definition =
     \<lparr>baseTemplate = Some ''@@ORACLE_HOME@@/wls.jar'',
      extensionTemplates = Some [''Oracle Restricted JRF'', ''@@ORACLE_HOME@@/em.jar''],
      customExtensionTemplates = None,
      serverGroupsToTarget = Some [''JRF-MAN-SVR''],
      dynamicClusterServerGroupsToTarget = None,
      rcuSchemas = None,
      targeting = None,
      postCreateDomainScript = None\<rparr>"

definition example_obj :: domain_typedef_obj where
  "example_obj =
     \<lparr>program_name = ''createDomain'',
      domain_type = ''WLS'',
      domain_typedef_filename = ''WLS.json'',
      version_typedef_name = ''WLS_12213'',
      paths_resolved = False,
      model_context = None,
      domain_typedef = example_definition,
      targeting_type = None,
      post_create_domain_script_dict = None,
      discover_filters = [(''/JDBCSystemResource'', [''^MyDS.*''])],
      topology_profile = None\<rparr>"

definition example_doc :: typedefs_dict where
  "example_doc =
     \<lparr>versions = Some [(''12.2.1.3'', ''WLS_12213'')],
      definitions = Some [(''WLS_12213'', example_definition)],
      topologyProfile = None,
      doc_discover_filters = Some [(''/JDBCSystemResource'', [''^MyDS.*''])],
      doc_system_elements = None\<rparr>"

text \<open>
  A finite table of what \<open>re.match\<close> answers for the patterns of the examples: the
  Restricted JRF pattern and \<open>^Other$\<close> match their one name (\<open>$\<close> also matches before a
  final newline), \<open>^MyDS.*\<close> matches a name that starts with \<open>MyDS\<close>. The table stops
  there: any other pattern is answered like \<open>(\<close>, which does not compile.
\<close>

definition example_re :: re_match where
  "example_re pattern s =
     (if pattern = RESTRICTED_JRF_TEMPLATE_REGEX
      then Inr (s = ''Oracle Restricted JRF'' \<or> s = ''Oracle Restricted JRF'' @ [CHR 0x0A])
      else if pattern = ''^MyDS.*'' then Inr (take 4 s = ''MyDS'')
      else if pattern = ''^Other$'' then Inr (s = ''Other'' \<or> s = ''Other'' @ [CHR 0x0A])
      else Inl (RegexError pattern))"

definition example_other_context :: model_context where
  "example_other_context t = t"

definition example_resolved :: domain_typedef_obj where
  "example_resolved = snd (resolve_paths (example_obj\<lparr>model_context := Some example_context\<rparr>))"

definition example_obj_restricted_second :: domain_typedef_obj where
  "example_obj_restricted_second =
     example_obj\<lparr>model_context := Some example_context,
       domain_typedef :=
         example_definition\<lparr>extensionTemplates :=
           Some [''@@ORACLE_HOME@@/em.jar'', ''Oracle Restricted JRF'']\<rparr>\<rparr>"

definition example_obj_no_templates :: domain_typedef_obj where
  "example_obj_no_templates =
     example_obj\<lparr>model_context := Some example_context,
       domain_typedef := example_definition\<lparr>extensionTemplates := None\<rparr>\<rparr>"

definition example_obj_two_filters :: domain_typedef_obj where
  "example_obj_two_filters =
     example_obj\<lparr>discover_filters := [(''/JDBCSystemResource'', [''^Other$'', ''^MyDS.*'', ''(''])]\<rparr>"

subsection \<open>Removing the base template\<close>

text \<open>
  The document with the key \<open>baseTemplate\<close> taken out of every definition, and the object
  with that key taken out of its definition: used to state that the constructor does not
  look at the key.
\<close>

definition drop_baseTemplate :: "typedefs_dict \<Rightarrow> typedefs_dict" where
  "drop_baseTemplate doc =
     doc\<lparr>definitions :=
           map_option (map (\<lambda>(name, d). (name, d\<lparr>baseTemplate := None\<rparr>))) (definitions doc)\<rparr>"

definition clear_baseTemplate :: "domain_typedef_obj \<Rightarrow> domain_typedef_obj" where
  "clear_baseTemplate self = self\<lparr>domain_typedef := (domain_typedef self)\<lparr>baseTemplate := None\<rparr>\<rparr>"

section \<open>Properties\<close>

subsection \<open>Auxiliary facts\<close>

lemma resolve_templates_map: "resolve_templates ctx ts acc = acc @ map ctx ts"
  by (induction ts arbitrary: acc) simp_all

lemma resolve_paths_when_resolved: "paths_resolved self \<Longrightarrow> resolve_paths self = (Inr (), self)"
  by (simp add: resolve_paths_def)

lemma resolve_paths_success_resolved:
  "resolve_paths self = (Inr u, self') \<Longrightarrow> paths_resolved self'"
  by (auto simp: resolve_paths_def split: if_splits option.splits)

lemma snd_after_resolve_paths: "snd (after_resolve_paths read self) = snd (resolve_paths self)"
  by (cases "resolve_paths self") (auto simp: after_resolve_paths_def split: sum.splits)

lemma fst_after_resolve_paths_failure:
  "fst (resolve_paths self) = Inl ex \<Longrightarrow> fst (after_resolve_paths read self) = Inl ex"
  by (cases "resolve_paths self") (auto simp: after_resolve_paths_def split: sum.splits)

lemma after_resolve_paths_when_resolved:
  "paths_resolved self \<Longrightarrow> after_resolve_paths read self = (read (domain_typedef self), self)"
  by (simp add: after_resolve_paths_def resolve_paths_when_resolved)

lemmas getter_defs =
  get_base_template_def get_extension_templates_def get_custom_extension_templates_def
  get_server_groups_to_target_def get_dynamic_cluster_server_groups_def

lemma resolve_paths_first:
  assumes "\<not> paths_resolved self" and "resolve_paths self = (Inr (), self')"
  shows "\<exists>ctx base. model_context self = Some ctx \<and> baseTemplate (domain_typedef self) = Some base \<and>
           self' = self\<lparr>domain_typedef := resolve_definition ctx base (domain_typedef self),
                       paths_resolved := True\<rparr>"
  using assms by (auto simp: resolve_paths_def split: option.splits)

lemma example_init:
  "DomainTypedef_init example_helper [] [] ''WLS.json'' ''createDomain'' ''WLS'' example_doc
     = Some (Inr example_obj)"
  by (simp add: DomainTypedef_init_def get_version_typedef_def match_version_typedef_def
      example_doc_def example_helper_def example_obj_def example_definition_def
      resolve_targeting_type_def build_discover_filters_def resolve_topology_profile_def
      NOT_SUPPORTED_def)

lemma example_resolve:
  "resolve_paths (example_obj\<lparr>model_context := Some example_context\<rparr>) = (Inr (), example_resolved)"
  by (simp add: example_resolved_def resolve_paths_def example_obj_def example_definition_def)

lemma example_resolved_eq:
  "example_resolved = example_obj\<lparr>model_context := Some example_context,
      domain_typedef :=
        resolve_definition example_context ''@@ORACLE_HOME@@/wls.jar'' example_definition,
      paths_resolved := True\<rparr>"
  by (simp add: example_resolved_def resolve_paths_def example_obj_def example_definition_def)

lemma snd_getters:
  "snd (get_base_template self) = snd (resolve_paths self)"
  "snd (get_extension_templates self) = snd (resolve_paths self)"
  "snd (get_custom_extension_templates self) = snd (resolve_paths self)"
  "snd (get_server_groups_to_target self) = snd (resolve_paths self)"
  "snd (get_dynamic_cluster_server_groups self) = snd (resolve_paths self)"
  by (simp_all add: getter_defs snd_after_resolve_paths)

lemma model_context_resolve_paths:
  "model_context (snd (resolve_paths self)) = model_context self"
  by (simp add: resolve_paths_def split: option.splits)

lemma model_context_set_model_context:
  "model_context (snd (set_model_context c self)) =
     (case model_context self of None \<Rightarrow> c | Some ctx \<Rightarrow> Some ctx)"
  by (simp add: set_model_context_def model_context_resolve_paths split: option.splits)

text \<open>The invariant: resolved paths imply a stored context.\<close>

lemma context_invariant_after_call:
  assumes "paths_resolved self \<longrightarrow> model_context self \<noteq> None"
  shows "paths_resolved (after_call c self) \<longrightarrow> model_context (after_call c self) \<noteq> None"
proof (cases c)
  case (Set_model_context x)
  show ?thesis
  proof (cases "model_context self")
    case None
    with assms Set_model_context show ?thesis
      by (auto simp: set_model_context_def resolve_paths_def split: option.splits)
  next
    case (Some ctx)
    with Set_model_context show ?thesis
      by (simp add: set_model_context_def)
  qed
qed (use assms in \<open>auto simp: snd_getters resolve_paths_def split: option.splits\<close>)

lemma context_invariant_after_calls:
  "paths_resolved self \<longrightarrow> model_context self \<noteq> None \<Longrightarrow>
   paths_resolved (after_calls calls self) \<longrightarrow> model_context (after_calls calls self) \<noteq> None"
proof (induction calls arbitrary: self)
  case Nil
  then show ?case by simp
next
  case (Cons c calls)
  from Cons.prems have "paths_resolved (after_call c self) \<longrightarrow> model_context (after_call c self) \<noteq> None"
    by (rule context_invariant_after_call)
  from Cons.IH [OF this] show ?case by simp
qed

lemma no_context_after_call:
  assumes "model_context self = None" and "\<forall>ctx. c \<noteq> Set_model_context (Some ctx)"
  shows "model_context (after_call c self) = None"
proof (cases c)
  case (Set_model_context x)
  with assms(2) have "x = None" by (cases x) auto
  with Set_model_context assms(1) show ?thesis
    by (simp add: model_context_set_model_context)
qed (simp_all add: snd_getters model_context_resolve_paths assms(1))

lemma no_context_after_calls:
  "model_context self = None \<Longrightarrow> \<forall>c \<in> set calls. \<forall>ctx. c \<noteq> Set_model_context (Some ctx) \<Longrightarrow>
   model_context (after_calls calls self) = None"
proof (induction calls arbitrary: self)
  case Nil
  then show ?case by simp
next
  case (Cons c calls)
  have "model_context (after_call c self) = None"
    using Cons.prems by (intro no_context_after_call) simp_all
  with Cons show ?case by simp
qed

lemma init_fresh:
  assumes "DomainTypedef_init helper tts tps filename prog dtype doc = Some (Inr self)"
  shows "model_context self = None" and "\<not> paths_resolved self"
    and "domain_type self = dtype" and "domain_typedef_filename self = filename"
  using assms
  by (auto simp: DomainTypedef_init_def split: option.splits sum.splits prod.splits)

lemma resolve_paths_no_context:
  "model_context self = None \<Longrightarrow> \<not> paths_resolved self \<Longrightarrow>
   resolve_paths self = (Inl (CLAException ''WLSDPLY-12302'' []), self)"
  by (simp add: resolve_paths_def)

lemma get_version_typedef_drop_baseTemplate:
  "get_version_typedef helper dtype filename (drop_baseTemplate doc) =
     map_option (map_sum id (\<lambda>(name, d). (name, d\<lparr>baseTemplate := None\<rparr>)))
       (get_version_typedef helper dtype filename doc)"
  by (simp add: get_version_typedef_def drop_baseTemplate_def map_of_map
      split: option.splits sum.splits)

lemma resolve_targeting_type_baseTemplate:
  "resolve_targeting_type helper tts filename (d\<lparr>baseTemplate := b\<rparr>) =
     resolve_targeting_type helper tts filename d"
  by (simp add: resolve_targeting_type_def)

lemma build_discover_filters_drop_baseTemplate:
  "build_discover_filters prog filename (drop_baseTemplate doc) =
     build_discover_filters prog filename doc"
  by (simp add: build_discover_filters_def drop_baseTemplate_def split: option.splits)

lemma resolve_topology_profile_drop_baseTemplate:
  "resolve_topology_profile helper tps filename (drop_baseTemplate doc) =
     resolve_topology_profile helper tps filename doc"
  by (simp add: resolve_topology_profile_def drop_baseTemplate_def)

lemma init_drop_baseTemplate:
  "DomainTypedef_init helper tts tps filename prog dtype (drop_baseTemplate doc) =
     map_option (map_sum id clear_baseTemplate)
       (DomainTypedef_init helper tts tps filename prog dtype doc)"
  by (simp add: DomainTypedef_init_def get_version_typedef_drop_baseTemplate
      resolve_targeting_type_baseTemplate build_discover_filters_drop_baseTemplate
      resolve_topology_profile_drop_baseTemplate clear_baseTemplate_def
      split: option.splits sum.splits prod.splits)

text \<open>An object without base template whose paths are not resolved stays so.\<close>

lemma no_base_after_call:
  assumes "\<not> paths_resolved self" and "baseTemplate (domain_typedef self) = None"
  shows "\<not> paths_resolved (after_call c self) \<and> baseTemplate (domain_typedef (after_call c self)) = None"
proof -
  have r: "\<not> paths_resolved (snd (resolve_paths s)) \<and> baseTemplate (domain_typedef (snd (resolve_paths s))) = None"
    if "\<not> paths_resolved s" and "baseTemplate (domain_typedef s) = None" for s
    using that by (simp add: resolve_paths_def split: option.splits)
  show ?thesis
  proof (cases c)
    case (Set_model_context x)
    show ?thesis
    proof (cases "model_context self")
      case None
      have "\<not> paths_resolved (self\<lparr>model_context := x\<rparr>)"
        and "baseTemplate (domain_typedef (self\<lparr>model_context := x\<rparr>)) = None"
        using assms by simp_all
      from r [OF this] show ?thesis
        by (simp add: Set_model_context set_model_context_def None)
    next
      case (Some ctx)
      with assms show ?thesis
        by (simp add: Set_model_context set_model_context_def)
    qed
  qed (use r [OF assms] in \<open>simp_all add: snd_getters\<close>)
qed

lemma no_base_after_calls:
  "\<not> paths_resolved self \<Longrightarrow> baseTemplate (domain_typedef self) = None \<Longrightarrow>
   \<not> paths_resolved (after_calls calls self) \<and>
   baseTemplate (domain_typedef (after_calls calls self)) = None"
proof (induction calls arbitrary: self)
  case Nil
  then show ?case by simp
next
  case (Cons c calls)
  from no_base_after_call [OF Cons.prems, of c] Cons.IH [of "after_call c self"]
  show ?case by simp
qed

lemma resolve_paths_no_base:
  assumes "\<not> paths_resolved self" and "baseTemplate (domain_typedef self) = None"
  shows "\<exists>ex. ConfigError ex \<and> resolve_paths self = (Inl ex, self)"
  using assms by (cases "model_context self") (simp_all add: resolve_paths_def)

lemma example_init_no_base:
  "DomainTypedef_init example_helper [] [] ''WLS.json'' ''createDomain'' ''WLS''
      (drop_baseTemplate example_doc) = Some (Inr (clear_baseTemplate example_obj))"
  by (simp add: init_drop_baseTemplate example_init)


lemma higher_version_loop_None [simp]:
  "higher_version_loop nxt vs None = Some None"
  by (subst higher_version_loop.simps) simp

lemma higher_version_loop_found:
  "map_of vs v = Some r \<Longrightarrow> higher_version_loop nxt vs (Some v) = Some (Some r)"
  by (subst higher_version_loop.simps) simp

lemma higher_version_loop_next:
  "map_of vs v = None \<Longrightarrow> higher_version_loop nxt vs (Some v) = higher_version_loop nxt vs (nxt v)"
  by (subst higher_version_loop.simps) simp

text \<open>
  The loop started at the first candidate: when candidate \<open>n\<close> is the first one in the
  table, the loop ends with its entry; when the oracle answers none at candidate \<open>n\<close>
  and no earlier candidate is in the table, the loop ends without result.
\<close>

lemma higher_version_loop_first_candidate:
  assumes "\<forall>m<n. \<exists>u. higher_candidate nxt v m = Some u \<and> map_of vs u = None"
    and "higher_candidate nxt v n = Some w" and "map_of vs w = Some r"
  shows "higher_version_loop nxt vs (nxt v) = Some (Some r)"
  using assms
proof (induction n arbitrary: v)
  case 0
  then show ?case by (simp add: higher_version_loop_found)
next
  case (Suc n)
  from Suc.prems(1) have "\<exists>u. higher_candidate nxt v 0 = Some u \<and> map_of vs u = None"
    by blast
  then obtain u where u: "nxt v = Some u" and nu: "map_of vs u = None"
    by auto
  have earlier: "\<forall>m<n. \<exists>u'. higher_candidate nxt u m = Some u' \<and> map_of vs u' = None"
  proof (intro allI impI)
    fix m assume "m < n"
    then have "Suc m < Suc n" by simp
    with Suc.prems(1) have "\<exists>u'. higher_candidate nxt v (Suc m) = Some u' \<and> map_of vs u' = None"
      by blast
    then show "\<exists>u'. higher_candidate nxt u m = Some u' \<and> map_of vs u' = None"
      by (simp add: u)
  qed
  have "higher_candidate nxt u n = Some w"
    using Suc.prems(2) by (simp add: u)
  from Suc.IH [OF earlier this Suc.prems(3)]
  show ?case by (simp add: u higher_version_loop_next [OF nu])
qed

lemma higher_version_loop_exhausted:
  assumes "\<forall>m<n. \<exists>u. higher_candidate nxt v m = Some u \<and> map_of vs u = None"
    and "higher_candidate nxt v n = None"
  shows "higher_version_loop nxt vs (nxt v) = Some None"
  using assms
proof (induction n arbitrary: v)
  case 0
  then show ?case by simp
next
  case (Suc n)
  from Suc.prems(1) have "\<exists>u. higher_candidate nxt v 0 = Some u \<and> map_of vs u = None"
    by blast
  then obtain u where u: "nxt v = Some u" and nu: "map_of vs u = None"
    by auto
  have earlier: "\<forall>m<n. \<exists>u'. higher_candidate nxt u m = Some u' \<and> map_of vs u' = None"
  proof (intro allI impI)
    fix m assume "m < n"
    then have "Suc m < Suc n" by simp
    with Suc.prems(1) have "\<exists>u'. higher_candidate nxt v (Suc m) = Some u' \<and> map_of vs u' = None"
      by blast
    then show "\<exists>u'. higher_candidate nxt u m = Some u' \<and> map_of vs u' = None"
      by (simp add: u)
  qed
  have "higher_candidate nxt u n = None"
    using Suc.prems(2) by (simp add: u)
  from Suc.IH [OF earlier this]
  show ?case by (simp add: u higher_version_loop_next [OF nu])
qed

lemma match_version_typedef_empty:
  "match_version_typedef helper dtype filename [] =
     Some (Inl (CLAException ''WLSDPLY-12307'' [dtype, filename]))"
  by (simp add: match_version_typedef_def)

lemma map_of_Some_nonempty: "map_of vs v = Some r \<Longrightarrow> vs \<noteq> []"
  by auto

lemma match_version_typedef_exact:
  assumes "map_of vs (get_actual_weblogic_version helper) = Some r"
  shows "match_version_typedef helper dtype filename vs =
     Some (if r = NOT_SUPPORTED
           then Inl (CLAException ''WLSDPLY-12313'' [dtype, get_actual_weblogic_version helper])
           else Inr r)"
  using assms map_of_Some_nonempty [OF assms]
  by (simp add: match_version_typedef_def)

lemma match_version_typedef_higher:
  assumes "map_of vs (get_actual_weblogic_version helper) = None"
    and "\<forall>m<n. \<exists>u. higher_candidate (get_next_higher_order_version_number helper)
                      (get_actual_weblogic_version helper) m = Some u \<and> map_of vs u = None"
    and "higher_candidate (get_next_higher_order_version_number helper)
           (get_actual_weblogic_version helper) n = Some w"
    and "map_of vs w = Some r"
  shows "match_version_typedef helper dtype filename vs =
     Some (if r = NOT_SUPPORTED
           then Inl (CLAException ''WLSDPLY-12313'' [dtype, get_actual_weblogic_version helper])
           else Inr r)"
  using assms(1) map_of_Some_nonempty [OF assms(4)]
    higher_version_loop_first_candidate [OF assms(2,3,4)]
  by (simp add: match_version_typedef_def)

lemma match_version_typedef_none:
  assumes "vs \<noteq> []" and "map_of vs (get_actual_weblogic_version helper) = None"
    and "\<forall>m<n. \<exists>u. higher_candidate (get_next_higher_order_version_number helper)
                      (get_actual_weblogic_version helper) m = Some u \<and> map_of vs u = None"
    and "higher_candidate (get_next_higher_order_version_number helper)
           (get_actual_weblogic_version helper) n = None"
  shows "match_version_typedef helper dtype filename vs =
     Some (Inl (CLAException ''WLSDPLY-12309'' [dtype, filename, get_actual_weblogic_version helper]))"
  using assms(1,2) higher_version_loop_exhausted [OF assms(3,4)]
  by (simp add: match_version_typedef_def)

lemma requires_rcu_iff:
  "requires_rcu self = (\<exists>schemas. rcuSchemas (domain_typedef self) = Some schemas \<and> schemas \<noteq> [])"
  by (simp add: requires_rcu_def split: option.splits)

lemma example_templates:
  "get_extension_templates example_resolved =
     (Inr [''Oracle Restricted JRF'', ''/u01/em.jar''], example_resolved)"
  by (simp add: get_extension_templates_def after_resolve_paths_def subscript_def
      resolve_paths_def example_resolved_eq resolve_definition_def example_definition_def
      example_context_def example_obj_def)

lemma example_templates_restricted_second:
  "get_extension_templates example_obj_restricted_second =
     (Inr [''/u01/em.jar'', ''Oracle Restricted JRF''], snd (resolve_paths example_obj_restricted_second))"
  by (simp add: get_extension_templates_def after_resolve_paths_def subscript_def
      resolve_paths_def example_obj_restricted_second_def resolve_definition_def
      example_definition_def example_context_def example_obj_def)

lemma example_templates_none:
  "get_extension_templates example_obj_no_templates =
     (Inr [], snd (resolve_paths example_obj_no_templates))"
  by (simp add: get_extension_templates_def after_resolve_paths_def subscript_def
      resolve_paths_def example_obj_no_templates_def resolve_definition_def
      example_definition_def example_context_def example_obj_def)

lemma example_re_restricted:
  "example_re RESTRICTED_JRF_TEMPLATE_REGEX ''Oracle Restricted JRF'' = Inr True"
  "example_re RESTRICTED_JRF_TEMPLATE_REGEX ''/u01/em.jar'' = Inr False"
  by (simp_all add: example_re_def)

lemma filter_loop_all_valid:
  "\<forall>p \<in> set filters. \<exists>b. re p n = Inr b \<Longrightarrow>
   filter_loop re filters n = Inr (\<exists>p \<in> set filters. re p n = Inr True)"
  by (induction filters) auto

lemma filter_loop_first_match:
  "\<forall>q \<in> set before. re q n = Inr False \<Longrightarrow> re p n = Inr True \<Longrightarrow>
   filter_loop re (before @ p # rest) n = Inr True"
  by (induction before) auto

lemma example_re_filters:
  "example_re ''^MyDS.*'' ''MyDS1'' = Inr True"
  "example_re ''^MyDS.*'' ''OtherDS'' = Inr False"
  "example_re ''^Other$'' ''MyDS1'' = Inr False"
  by (simp_all add: example_re_def RESTRICTED_JRF_TEMPLATE_REGEX_def)


lemma map_of_distinct_values:
  "distinct (map snd xs) \<Longrightarrow> map_of xs k = Some a \<Longrightarrow> map_of xs k' = Some a \<Longrightarrow> k = k'"
proof (induction xs)
  case Nil
  then show ?case by simp
next
  case (Cons x xs)
  obtain k0 a0 where x: "x = (k0, a0)" by (cases x)
  have notin: "a0 \<notin> snd ` set xs" and d: "distinct (map snd xs)"
    using Cons.prems(1) by (simp_all add: x)
  have later: "a' \<noteq> a0" if "map_of xs j = Some a'" for j a'
  proof
    assume "a' = a0"
    with that have "(j, a0) \<in> set xs" by (simp add: map_of_SomeD)
    then have "a0 \<in> snd ` set xs" by force
    with notin show False by simp
  qed
  show ?case
  proof (cases "k = k0")
    case True
    with Cons.prems(2) have a: "a = a0" by (simp add: x)
    show ?thesis
    proof (cases "k' = k0")
      case True
      with \<open>k = k0\<close> show ?thesis by simp
    next
      case False
      with Cons.prems(3) have "map_of xs k' = Some a" by (simp add: x)
      with later a show ?thesis by blast
    qed
  next
    case False
    with Cons.prems(2) have m: "map_of xs k = Some a" by (simp add: x)
    show ?thesis
    proof (cases "k' = k0")
      case True
      with Cons.prems(3) have "a = a0" by (simp add: x)
      with later m show ?thesis by blast
    next
      case False
      with Cons.prems(3) have "map_of xs k' = Some a" by (simp add: x)
      with Cons.IH [OF d m] show ?thesis by simp
    qed
  qed
qed

lemma key_mapping_table_distinct_values: "distinct (map snd key_mapping_table)"
  by (simp add: key_mapping_table_def)

lemma key_mapping_table_inj:
  "map_of key_mapping_table k = Some a \<Longrightarrow> map_of key_mapping_table k' = Some a \<Longrightarrow> k = k'"
  using key_mapping_table_distinct_values by (rule map_of_distinct_values)

lemma update_fresh_key: "k \<notin> fst ` set al \<Longrightarrow> AList.update k v al = al @ [(k, v)]"
  by (induction al) auto

lemma convert_known:
  "map_of key_mapping_table k = Some a \<Longrightarrow> convert_system_elements_key_name prog filename k = Inr a"
  by (simp add: convert_system_elements_key_name_def)

lemma convert_unknown:
  "map_of key_mapping_table k = None \<Longrightarrow>
   convert_system_elements_key_name prog filename k =
     Inl (if prog = DISCOVER_DOMAIN
          then DiscoverException ''WLSDPLY-12316'' [k, filename]
          else CreateException ''WLSDPLY-12316'' [k, filename])"
  by (simp add: convert_system_elements_key_name_def)

lemma translate_loop_known:
  assumes "distinct (map fst se)"
    and "\<forall>k \<in> fst ` set se. map_of key_mapping_table k \<noteq> None"
    and "\<forall>k \<in> fst ` set se. \<forall>a. map_of key_mapping_table k = Some a \<longrightarrow> a \<notin> fst ` set acc"
  shows "\<exists>r. translate_loop prog filename se acc = Inr (acc @ r) \<and>
             list_all2 (\<lambda>(k, v) (k', v'). map_of key_mapping_table k = Some k' \<and> v' = v) se r"
  using assms
proof (induction se arbitrary: acc)
  case Nil
  then show ?case by simp
next
  case (Cons item se)
  obtain k v where item: "item = (k, v)" by (cases item)
  from Cons.prems(2) item obtain a where a: "map_of key_mapping_table k = Some a"
    by auto
  from Cons.prems(3) item a have fresh: "a \<notin> fst ` set acc"
    by auto
  have d: "distinct (map fst se)" and knotin: "k \<notin> fst ` set se"
    using Cons.prems(1) item by auto
  have known: "\<forall>k \<in> fst ` set se. map_of key_mapping_table k \<noteq> None"
    using Cons.prems(2) by auto
  have fresh2: "\<forall>k' \<in> fst ` set se. \<forall>a'. map_of key_mapping_table k' = Some a' \<longrightarrow>
                  a' \<notin> fst ` set (acc @ [(a, v)])"
  proof (intro ballI allI impI)
    fix k' a' assume k': "k' \<in> fst ` set se" and a': "map_of key_mapping_table k' = Some a'"
    from k' knotin have "k' \<noteq> k" by auto
    with a a' key_mapping_table_inj have "a' \<noteq> a" by blast
    moreover from Cons.prems(3) k' a' have "a' \<notin> fst ` set acc" by auto
    ultimately show "a' \<notin> fst ` set (acc @ [(a, v)])" by auto
  qed
  from Cons.IH [OF d known fresh2] obtain r where
    r: "translate_loop prog filename se (acc @ [(a, v)]) = Inr ((acc @ [(a, v)]) @ r)"
    and l: "list_all2 (\<lambda>(k, v) (k', v'). map_of key_mapping_table k = Some k' \<and> v' = v) se r"
    by blast
  have "translate_loop prog filename (item # se) acc = Inr (acc @ ((a, v) # r))"
    by (simp add: item convert_known [OF a] update_fresh_key [OF fresh] r)
  moreover have "list_all2 (\<lambda>(k, v) (k', v'). map_of key_mapping_table k = Some k' \<and> v' = v)
                   (item # se) ((a, v) # r)"
    using l a by (simp add: item)
  ultimately show ?case by blast
qed

lemma translate_loop_unknown:
  assumes "k \<in> fst ` set se" and "map_of key_mapping_table k = None"
  shows "\<exists>k'. k' \<in> fst ` set se \<and> map_of key_mapping_table k' = None \<and>
           translate_loop prog filename se acc =
             Inl (if prog = DISCOVER_DOMAIN
                  then DiscoverException ''WLSDPLY-12316'' [k', filename]
                  else CreateException ''WLSDPLY-12316'' [k', filename])"
  using assms
proof (induction se arbitrary: acc)
  case Nil
  then show ?case by simp
next
  case (Cons item se)
  obtain k0 v where item: "item = (k0, v)" by (cases item)
  show ?case
  proof (cases "map_of key_mapping_table k0")
    case None
    have "translate_loop prog filename (item # se) acc =
             Inl (if prog = DISCOVER_DOMAIN
                  then DiscoverException ''WLSDPLY-12316'' [k0, filename]
                  else CreateException ''WLSDPLY-12316'' [k0, filename])"
      by (simp add: item convert_unknown [OF None])
    moreover have "k0 \<in> fst ` set (item # se)" by (simp add: item)
    ultimately show ?thesis using None by blast
  next
    case (Some a)
    with Cons.prems item have "k \<in> fst ` set se" by auto
    from Cons.IH [OF this Cons.prems(2), of "AList.update a v acc"] obtain k' where
      "k' \<in> fst ` set se" "map_of key_mapping_table k' = None"
      "translate_loop prog filename se (AList.update a v acc) =
             Inl (if prog = DISCOVER_DOMAIN
                  then DiscoverException ''WLSDPLY-12316'' [k', filename]
                  else CreateException ''WLSDPLY-12316'' [k', filename])"
      by blast
    then show ?thesis
      by (auto simp: item convert_known [OF Some])
  qed
qed

subsection \<open>Matching the version\<close>

text \<open>
  C1, as the claim states it, fails where the selected entry is the sentinel: with the
  table \<open>{"12.2.1.3": "NOT_SUPPORTED"}\<close> and the current version \<open>12.2.1.3\<close> the current
  version is a key of the table, and the method raises \<open>WLSDPLY-12313\<close> instead of
  returning that entry.
\<close>

theorem match_version_typedef_selects_counterexample:
  "map_of [(''12.2.1.3'', ''NOT_SUPPORTED'')] (get_actual_weblogic_version example_helper)
     = Some ''NOT_SUPPORTED'' \<and>
   match_version_typedef example_helper ''WLS'' ''WLS.json'' [(''12.2.1.3'', ''NOT_SUPPORTED'')]
     = Some (Inl (CLAException ''WLSDPLY-12313'' [''WLS'', ''12.2.1.3''])) \<and>
   match_version_typedef example_helper ''WLS'' ''WLS.json'' [(''12.2.1.3'', ''NOT_SUPPORTED'')]
     \<noteq> Some (Inr ''NOT_SUPPORTED'')"
  by (simp add: match_version_typedef_def example_helper_def NOT_SUPPORTED_def)

text \<open>
  C1 (amended). On the empty table the method raises \<open>WLSDPLY-12307\<close>. When the current
  version is a key of the table, the method returns that entry, provided the entry is not
  \<open>NOT_SUPPORTED\<close>. When it is not a key and candidate \<open>n\<close> of the oracle's successive
  higher versions is the first one that is a key, the method returns the entry of that
  candidate, provided the entry is not \<open>NOT_SUPPORTED\<close>. When the table is not empty, the
  current version is not a key and the oracle answers none before any candidate is a key,
  the method raises \<open>WLSDPLY-12309\<close>, a \<open>ConfigError\<close>. In each case the method returns: the
  loop ends.
\<close>

theorem match_version_typedef_selects:
  "match_version_typedef helper dtype filename [] =
     Some (Inl (CLAException ''WLSDPLY-12307'' [dtype, filename])) \<and>
   (map_of vs (get_actual_weblogic_version helper) = Some r \<longrightarrow> r \<noteq> NOT_SUPPORTED \<longrightarrow>
      match_version_typedef helper dtype filename vs = Some (Inr r)) \<and>
   (map_of vs (get_actual_weblogic_version helper) = None \<longrightarrow>
    (\<forall>m<n. \<exists>u. higher_candidate (get_next_higher_order_version_number helper)
                   (get_actual_weblogic_version helper) m = Some u \<and> map_of vs u = None) \<longrightarrow>
    higher_candidate (get_next_higher_order_version_number helper)
      (get_actual_weblogic_version helper) n = Some w \<longrightarrow>
    map_of vs w = Some r \<longrightarrow> r \<noteq> NOT_SUPPORTED \<longrightarrow>
      match_version_typedef helper dtype filename vs = Some (Inr r)) \<and>
   (vs \<noteq> [] \<longrightarrow>
    map_of vs (get_actual_weblogic_version helper) = None \<longrightarrow>
    (\<forall>m<n. \<exists>u. higher_candidate (get_next_higher_order_version_number helper)
                   (get_actual_weblogic_version helper) m = Some u \<and> map_of vs u = None) \<longrightarrow>
    higher_candidate (get_next_higher_order_version_number helper)
      (get_actual_weblogic_version helper) n = None \<longrightarrow>
      match_version_typedef helper dtype filename vs =
        Some (Inl (CLAException ''WLSDPLY-12309''
                     [dtype, filename, get_actual_weblogic_version helper])) \<and>
      ConfigError (CLAException ''WLSDPLY-12309''
                     [dtype, filename, get_actual_weblogic_version helper]))"
proof (intro conjI impI)
  show "match_version_typedef helper dtype filename [] =
     Some (Inl (CLAException ''WLSDPLY-12307'' [dtype, filename]))"
    by (rule match_version_typedef_empty)
next
  assume "map_of vs (get_actual_weblogic_version helper) = Some r" and "r \<noteq> NOT_SUPPORTED"
  then show "match_version_typedef helper dtype filename vs = Some (Inr r)"
    by (simp add: match_version_typedef_exact)
next
  assume "map_of vs (get_actual_weblogic_version helper) = None"
    and "\<forall>m<n. \<exists>u. higher_candidate (get_next_higher_order_version_number helper)
                   (get_actual_weblogic_version helper) m = Some u \<and> map_of vs u = None"
    and "higher_candidate (get_next_higher_order_version_number helper)
           (get_actual_weblogic_version helper) n = Some w"
    and "map_of vs w = Some r" and "r \<noteq> NOT_SUPPORTED"
  then show "match_version_typedef helper dtype filename vs = Some (Inr r)"
    by (simp add: match_version_typedef_higher)
next
  assume "vs \<noteq> []" and "map_of vs (get_actual_weblogic_version helper) = None"
    and "\<forall>m<n. \<exists>u. higher_candidate (get_next_higher_order_version_number helper)
                   (get_actual_weblogic_version helper) m = Some u \<and> map_of vs u = None"
    and "higher_candidate (get_next_higher_order_version_number helper)
           (get_actual_weblogic_version helper) n = None"
  then show "match_version_typedef helper dtype filename vs =
        Some (Inl (CLAException ''WLSDPLY-12309''
                     [dtype, filename, get_actual_weblogic_version helper]))"
    by (rule match_version_typedef_none)
next
  show "ConfigError (CLAException ''WLSDPLY-12309''
                     [dtype, filename, get_actual_weblogic_version helper])"
    by simp
qed

theorem match_version_typedef_selects_witness:
  "match_version_typedef example_helper ''WLS'' ''WLS.json'' [(''12.2.1.3'', ''WLS_12213'')]
     = Some (Inr ''WLS_12213'') \<and>
   match_version_typedef example_helper ''WLS'' ''WLS.json''
       [(''10.3.6'', ''WLS_11''), (''14.1.1'', ''WLS_14'')]
     = Some (Inr ''WLS_14'') \<and>
   match_version_typedef example_helper ''WLS'' ''WLS.json'' [(''10.3.6'', ''WLS_11'')]
     = Some (Inl (CLAException ''WLSDPLY-12309'' [''WLS'', ''WLS.json'', ''12.2.1.3'']))"
  using
    match_version_typedef_selects
      [of example_helper "''WLS''" "''WLS.json''" "[(''12.2.1.3'', ''WLS_12213'')]"
          "''WLS_12213''" 0 "''x''"]
    match_version_typedef_selects
      [of example_helper "''WLS''" "''WLS.json''" "[(''10.3.6'', ''WLS_11''), (''14.1.1'', ''WLS_14'')]"
          "''WLS_14''" "Suc 0" "''14.1.1''"]
    match_version_typedef_selects
      [of example_helper "''WLS''" "''WLS.json''" "[(''10.3.6'', ''WLS_11'')]"
          "''x''" "Suc (Suc 0)" "''x''"]
  by (simp add: example_helper_def NOT_SUPPORTED_def All_less_Suc)

text \<open>
  C2. When the entry selected for the version is \<open>NOT_SUPPORTED\<close>, found under the current
  version itself or under the first higher candidate that is a key of the table, the
  method raises \<open>WLSDPLY-12313\<close>, a \<open>ConfigError\<close>, although a key was found.
\<close>

theorem match_version_typedef_not_supported:
  "(map_of vs (get_actual_weblogic_version helper) = Some NOT_SUPPORTED \<longrightarrow>
      match_version_typedef helper dtype filename vs =
        Some (Inl (CLAException ''WLSDPLY-12313'' [dtype, get_actual_weblogic_version helper]))) \<and>
   (map_of vs (get_actual_weblogic_version helper) = None \<longrightarrow>
    (\<forall>m<n. \<exists>u. higher_candidate (get_next_higher_order_version_number helper)
                   (get_actual_weblogic_version helper) m = Some u \<and> map_of vs u = None) \<longrightarrow>
    higher_candidate (get_next_higher_order_version_number helper)
      (get_actual_weblogic_version helper) n = Some w \<longrightarrow>
    map_of vs w = Some NOT_SUPPORTED \<longrightarrow>
      match_version_typedef helper dtype filename vs =
        Some (Inl (CLAException ''WLSDPLY-12313'' [dtype, get_actual_weblogic_version helper]))) \<and>
   ConfigError (CLAException ''WLSDPLY-12313'' [dtype, get_actual_weblogic_version helper])"
proof (intro conjI impI)
  assume "map_of vs (get_actual_weblogic_version helper) = Some NOT_SUPPORTED"
  then show "match_version_typedef helper dtype filename vs =
        Some (Inl (CLAException ''WLSDPLY-12313'' [dtype, get_actual_weblogic_version helper]))"
    by (simp add: match_version_typedef_exact)
next
  assume "map_of vs (get_actual_weblogic_version helper) = None"
    and "\<forall>m<n. \<exists>u. higher_candidate (get_next_higher_order_version_number helper)
                   (get_actual_weblogic_version helper) m = Some u \<and> map_of vs u = None"
    and "higher_candidate (get_next_higher_order_version_number helper)
           (get_actual_weblogic_version helper) n = Some w"
    and "map_of vs w = Some NOT_SUPPORTED"
  then show "match_version_typedef helper dtype filename vs =
        Some (Inl (CLAException ''WLSDPLY-12313'' [dtype, get_actual_weblogic_version helper]))"
    by (simp add: match_version_typedef_higher)
next
  show "ConfigError (CLAException ''WLSDPLY-12313'' [dtype, get_actual_weblogic_version helper])"
    by simp
qed

theorem match_version_typedef_not_supported_witness:
  "match_version_typedef example_helper ''WLS'' ''WLS.json''
       [(''12.2.1.3'', ''NOT_SUPPORTED''), (''14.1.1'', ''WLS_14'')]
     = Some (Inl (CLAException ''WLSDPLY-12313'' [''WLS'', ''12.2.1.3''])) \<and>
   match_version_typedef example_helper ''WLS'' ''WLS.json''
       [(''14.1.1'', ''NOT_SUPPORTED''), (''10.3.6'', ''WLS_11'')]
     = Some (Inl (CLAException ''WLSDPLY-12313'' [''WLS'', ''12.2.1.3'']))"
  using
    match_version_typedef_not_supported
      [of "[(''12.2.1.3'', ''NOT_SUPPORTED''), (''14.1.1'', ''WLS_14'')]" example_helper
          "''WLS''" "''WLS.json''" 0 "''x''"]
    match_version_typedef_not_supported
      [of "[(''14.1.1'', ''NOT_SUPPORTED''), (''10.3.6'', ''WLS_11'')]" example_helper
          "''WLS''" "''WLS.json''" "Suc 0" "''14.1.1''"]
  by (simp add: example_helper_def NOT_SUPPORTED_def All_less_Suc)

subsection \<open>Path resolution happens once\<close>

text \<open>
  C3. After a successful call of \<open>__resolve_paths\<close> a further call changes nothing and
  succeeds, and so does every getter that returns a path-bearing field: each leaves the
  object as it is. When that successful call was the first one (the paths were not yet
  resolved), the base template of the record is the token substitution of the original one
  and the two template lists are the substitutions of the original elements (the empty
  list for an absent one): the substitution has been applied once, and the getters
  return these values.
\<close>

theorem resolve_paths_idempotent:
  assumes "resolve_paths self = (Inr (), self')"
  shows "resolve_paths self' = (Inr (), self') \<and>
         snd (get_base_template self') = self' \<and>
         snd (get_extension_templates self') = self' \<and>
         snd (get_custom_extension_templates self') = self' \<and>
         snd (get_server_groups_to_target self') = self' \<and>
         snd (get_dynamic_cluster_server_groups self') = self' \<and>
         (\<not> paths_resolved self \<longrightarrow>
            (\<exists>ctx base.
               model_context self = Some ctx \<and>
               baseTemplate (domain_typedef self) = Some base \<and>
               baseTemplate (domain_typedef self') = Some (ctx base) \<and>
               extensionTemplates (domain_typedef self') =
                 Some (map ctx (case extensionTemplates (domain_typedef self) of None \<Rightarrow> [] | Some l \<Rightarrow> l)) \<and>
               customExtensionTemplates (domain_typedef self') =
                 Some (map ctx (case customExtensionTemplates (domain_typedef self) of None \<Rightarrow> [] | Some l \<Rightarrow> l)) \<and>
               get_base_template self' = (Inr (ctx base), self') \<and>
               get_extension_templates self' =
                 (Inr (map ctx (case extensionTemplates (domain_typedef self) of None \<Rightarrow> [] | Some l \<Rightarrow> l)), self') \<and>
               get_custom_extension_templates self' =
                 (Inr (map ctx (case customExtensionTemplates (domain_typedef self) of None \<Rightarrow> [] | Some l \<Rightarrow> l)), self')))"
proof -
  have res: "paths_resolved self'"
    using assms by (rule resolve_paths_success_resolved)
  have again: "resolve_paths self' = (Inr (), self')"
    using res by (rule resolve_paths_when_resolved)
  have getters: "snd (get_base_template self') = self'"
    "snd (get_extension_templates self') = self'"
    "snd (get_custom_extension_templates self') = self'"
    "snd (get_server_groups_to_target self') = self'"
    "snd (get_dynamic_cluster_server_groups self') = self'"
    by (simp_all add: getter_defs snd_after_resolve_paths again)
  have once: "\<exists>ctx base.
               model_context self = Some ctx \<and>
               baseTemplate (domain_typedef self) = Some base \<and>
               baseTemplate (domain_typedef self') = Some (ctx base) \<and>
               extensionTemplates (domain_typedef self') =
                 Some (map ctx (case extensionTemplates (domain_typedef self) of None \<Rightarrow> [] | Some l \<Rightarrow> l)) \<and>
               customExtensionTemplates (domain_typedef self') =
                 Some (map ctx (case customExtensionTemplates (domain_typedef self) of None \<Rightarrow> [] | Some l \<Rightarrow> l)) \<and>
               get_base_template self' = (Inr (ctx base), self') \<and>
               get_extension_templates self' =
                 (Inr (map ctx (case extensionTemplates (domain_typedef self) of None \<Rightarrow> [] | Some l \<Rightarrow> l)), self') \<and>
               get_custom_extension_templates self' =
                 (Inr (map ctx (case customExtensionTemplates (domain_typedef self) of None \<Rightarrow> [] | Some l \<Rightarrow> l)), self')"
    if unres: "\<not> paths_resolved self"
  proof -
    from resolve_paths_first [OF unres assms] obtain ctx base where
      c: "model_context self = Some ctx" and b: "baseTemplate (domain_typedef self) = Some base"
      and s: "self' = self\<lparr>domain_typedef := resolve_definition ctx base (domain_typedef self),
                       paths_resolved := True\<rparr>"
      by blast
    have d: "domain_typedef self' = resolve_definition ctx base (domain_typedef self)"
      by (simp add: s)
    have f1: "baseTemplate (domain_typedef self') = Some (ctx base)"
      by (simp add: d resolve_definition_def)
    have f2: "extensionTemplates (domain_typedef self') =
                 Some (map ctx (case extensionTemplates (domain_typedef self) of None \<Rightarrow> [] | Some l \<Rightarrow> l))"
      by (simp add: d resolve_definition_def resolve_templates_map split: option.splits)
    have f3: "customExtensionTemplates (domain_typedef self') =
                 Some (map ctx (case customExtensionTemplates (domain_typedef self) of None \<Rightarrow> [] | Some l \<Rightarrow> l))"
      by (simp add: d resolve_definition_def resolve_templates_map split: option.splits)
    have g1: "get_base_template self' = (Inr (ctx base), self')"
      by (simp add: get_base_template_def after_resolve_paths_when_resolved [OF res] f1 subscript_def)
    have g2: "get_extension_templates self' =
                 (Inr (map ctx (case extensionTemplates (domain_typedef self) of None \<Rightarrow> [] | Some l \<Rightarrow> l)), self')"
      by (simp add: get_extension_templates_def after_resolve_paths_when_resolved [OF res] f2 subscript_def)
    have g3: "get_custom_extension_templates self' =
                 (Inr (map ctx (case customExtensionTemplates (domain_typedef self) of None \<Rightarrow> [] | Some l \<Rightarrow> l)), self')"
      by (simp add: get_custom_extension_templates_def after_resolve_paths_when_resolved [OF res] f3 subscript_def)
    from c b f1 f2 f3 g1 g2 g3 show ?thesis by blast
  qed
  from again getters once show ?thesis by blast
qed

theorem resolve_paths_idempotent_witness:
  "resolve_paths (example_obj\<lparr>model_context := Some example_context\<rparr>) = (Inr (), example_resolved) \<and>
   resolve_paths example_resolved = (Inr (), example_resolved) \<and>
   get_base_template example_resolved = (Inr ''/u01/wls.jar'', example_resolved) \<and>
   get_extension_templates example_resolved =
     (Inr [''Oracle Restricted JRF'', ''/u01/em.jar''], example_resolved) \<and>
   get_custom_extension_templates example_resolved = (Inr [], example_resolved)"
  using resolve_paths_idempotent [OF example_resolve] example_resolve
  by (auto simp: example_obj_def example_definition_def example_context_def)

subsection \<open>Getters before a model context is set\<close>

text \<open>
  C7. On an object that the constructor returned, after any sequence of calls: as long as
  no call of \<open>set_model_context\<close> passed a context, the object holds none; and whenever the
  object holds no context, each of the five getters of path-bearing fields (base template,
  extension templates, custom extension templates, server groups, dynamic cluster server
  groups) raises the exception \<open>WLSDPLY-12302\<close>, a \<open>ConfigError\<close>, and returns no default.
\<close>

theorem getters_fail_without_model_context:
  assumes "DomainTypedef_init helper tts tps filename prog dtype doc = Some (Inr self0)"
  shows "((\<forall>c \<in> set calls. \<forall>ctx. c \<noteq> Set_model_context (Some ctx)) \<longrightarrow>
            model_context (after_calls calls self0) = None) \<and>
         (model_context (after_calls calls self0) = None \<longrightarrow>
            ConfigError (CLAException ''WLSDPLY-12302'' []) \<and>
            get_base_template (after_calls calls self0) =
              (Inl (CLAException ''WLSDPLY-12302'' []), after_calls calls self0) \<and>
            get_extension_templates (after_calls calls self0) =
              (Inl (CLAException ''WLSDPLY-12302'' []), after_calls calls self0) \<and>
            get_custom_extension_templates (after_calls calls self0) =
              (Inl (CLAException ''WLSDPLY-12302'' []), after_calls calls self0) \<and>
            get_server_groups_to_target (after_calls calls self0) =
              (Inl (CLAException ''WLSDPLY-12302'' []), after_calls calls self0) \<and>
            get_dynamic_cluster_server_groups (after_calls calls self0) =
              (Inl (CLAException ''WLSDPLY-12302'' []), after_calls calls self0))"
proof -
  let ?s = "after_calls calls self0"
  have fresh: "model_context self0 = None" "\<not> paths_resolved self0"
    using init_fresh [OF assms] by simp_all
  have inv: "paths_resolved ?s \<longrightarrow> model_context ?s \<noteq> None"
    using fresh by (intro context_invariant_after_calls) simp
  have a: "model_context ?s = None" if "\<forall>c \<in> set calls. \<forall>ctx. c \<noteq> Set_model_context (Some ctx)"
    using fresh(1) that by (rule no_context_after_calls)
  have b: "get_base_template ?s = (Inl (CLAException ''WLSDPLY-12302'' []), ?s)"
      "get_extension_templates ?s = (Inl (CLAException ''WLSDPLY-12302'' []), ?s)"
      "get_custom_extension_templates ?s = (Inl (CLAException ''WLSDPLY-12302'' []), ?s)"
      "get_server_groups_to_target ?s = (Inl (CLAException ''WLSDPLY-12302'' []), ?s)"
      "get_dynamic_cluster_server_groups ?s = (Inl (CLAException ''WLSDPLY-12302'' []), ?s)"
    if none: "model_context ?s = None"
  proof -
    from inv none have "\<not> paths_resolved ?s" by simp
    with none have "resolve_paths ?s = (Inl (CLAException ''WLSDPLY-12302'' []), ?s)"
      by (rule resolve_paths_no_context)
    then show "get_base_template ?s = (Inl (CLAException ''WLSDPLY-12302'' []), ?s)"
      "get_extension_templates ?s = (Inl (CLAException ''WLSDPLY-12302'' []), ?s)"
      "get_custom_extension_templates ?s = (Inl (CLAException ''WLSDPLY-12302'' []), ?s)"
      "get_server_groups_to_target ?s = (Inl (CLAException ''WLSDPLY-12302'' []), ?s)"
      "get_dynamic_cluster_server_groups ?s = (Inl (CLAException ''WLSDPLY-12302'' []), ?s)"
      by (simp_all add: getter_defs after_resolve_paths_def)
  qed
  from a b show ?thesis by simp
qed

theorem getters_fail_without_model_context_witness:
  "DomainTypedef_init example_helper [] [] ''WLS.json'' ''createDomain'' ''WLS'' example_doc
     = Some (Inr example_obj) \<and>
   model_context (after_calls [Get_base_template, Set_model_context None] example_obj) = None \<and>
   get_extension_templates (after_calls [Get_base_template, Set_model_context None] example_obj) =
     (Inl (CLAException ''WLSDPLY-12302'' []),
      after_calls [Get_base_template, Set_model_context None] example_obj) \<and>
   get_base_template example_obj = (Inl (CLAException ''WLSDPLY-12302'' []), example_obj)"
  using getters_fail_without_model_context
          [OF example_init, of "[Get_base_template, Set_model_context None]"]
        getters_fail_without_model_context [OF example_init, of "[]"]
        example_init
  by simp

subsection \<open>A definition without base template\<close>

text \<open>
  C8. The constructor does not look at \<open>baseTemplate\<close>: on the document with the key
  removed from its definitions it ends as on the document itself, with the same exception or
  with the same object but for that key, so a missing base template never makes the
  construction fail. On a constructed object whose definition has no \<open>baseTemplate\<close>,
  \<open>set_model_context\<close> with a context raises \<open>WLSDPLY-12303\<close> (the context stays stored), and
  after any sequence of calls path resolution and each path-returning getter raise a
  \<open>ConfigError\<close>: the absence is found when paths are resolved, every time.
\<close>

theorem missing_baseTemplate_found_by_resolve_paths:
  "DomainTypedef_init helper tts tps filename prog dtype (drop_baseTemplate doc) =
     map_option (map_sum id clear_baseTemplate)
       (DomainTypedef_init helper tts tps filename prog dtype doc) \<and>
   (DomainTypedef_init helper tts tps filename prog dtype doc = Some (Inr self) \<longrightarrow>
    baseTemplate (domain_typedef self) = None \<longrightarrow>
      set_model_context (Some ctx) self =
        (Inl (CLAException ''WLSDPLY-12303'' [dtype, filename, version_typedef_name self]),
         self\<lparr>model_context := Some ctx\<rparr>) \<and>
      (\<exists>ex. ConfigError ex \<and>
         resolve_paths (after_calls calls self) = (Inl ex, after_calls calls self) \<and>
         get_base_template (after_calls calls self) = (Inl ex, after_calls calls self) \<and>
         get_extension_templates (after_calls calls self) = (Inl ex, after_calls calls self) \<and>
         get_custom_extension_templates (after_calls calls self) = (Inl ex, after_calls calls self) \<and>
         get_server_groups_to_target (after_calls calls self) = (Inl ex, after_calls calls self) \<and>
         get_dynamic_cluster_server_groups (after_calls calls self) = (Inl ex, after_calls calls self)))"
proof (intro conjI impI)
  show "DomainTypedef_init helper tts tps filename prog dtype (drop_baseTemplate doc) =
     map_option (map_sum id clear_baseTemplate)
       (DomainTypedef_init helper tts tps filename prog dtype doc)"
    by (rule init_drop_baseTemplate)
next
  assume init: "DomainTypedef_init helper tts tps filename prog dtype doc = Some (Inr self)"
    and nobase: "baseTemplate (domain_typedef self) = None"
  have fresh: "model_context self = None" "\<not> paths_resolved self"
      "domain_type self = dtype" "domain_typedef_filename self = filename"
    using init_fresh [OF init] by simp_all
  show "set_model_context (Some ctx) self =
        (Inl (CLAException ''WLSDPLY-12303'' [dtype, filename, version_typedef_name self]),
         self\<lparr>model_context := Some ctx\<rparr>)"
    using fresh nobase by (simp add: set_model_context_def resolve_paths_def)
  let ?s = "after_calls calls self"
  from no_base_after_calls [OF fresh(2) nobase, of calls]
  have "\<not> paths_resolved ?s" and "baseTemplate (domain_typedef ?s) = None"
    by simp_all
  from resolve_paths_no_base [OF this] obtain ex where
    ex: "ConfigError ex" and r: "resolve_paths ?s = (Inl ex, ?s)"
    by blast
  have "get_base_template ?s = (Inl ex, ?s)"
      "get_extension_templates ?s = (Inl ex, ?s)"
      "get_custom_extension_templates ?s = (Inl ex, ?s)"
      "get_server_groups_to_target ?s = (Inl ex, ?s)"
      "get_dynamic_cluster_server_groups ?s = (Inl ex, ?s)"
    using r by (simp_all add: getter_defs after_resolve_paths_def)
  with ex r show "\<exists>ex. ConfigError ex \<and>
         resolve_paths ?s = (Inl ex, ?s) \<and>
         get_base_template ?s = (Inl ex, ?s) \<and>
         get_extension_templates ?s = (Inl ex, ?s) \<and>
         get_custom_extension_templates ?s = (Inl ex, ?s) \<and>
         get_server_groups_to_target ?s = (Inl ex, ?s) \<and>
         get_dynamic_cluster_server_groups ?s = (Inl ex, ?s)"
    by blast
qed

theorem missing_baseTemplate_found_by_resolve_paths_witness:
  "DomainTypedef_init example_helper [] [] ''WLS.json'' ''createDomain'' ''WLS''
      (drop_baseTemplate example_doc) = Some (Inr (clear_baseTemplate example_obj)) \<and>
   baseTemplate (domain_typedef (clear_baseTemplate example_obj)) = None \<and>
   set_model_context (Some example_context) (clear_baseTemplate example_obj) =
     (Inl (CLAException ''WLSDPLY-12303'' [''WLS'', ''WLS.json'', ''WLS_12213'']),
      (clear_baseTemplate example_obj)\<lparr>model_context := Some example_context\<rparr>) \<and>
   get_base_template (clear_baseTemplate example_obj) =
     (Inl (CLAException ''WLSDPLY-12302'' []), clear_baseTemplate example_obj) \<and>
   get_base_template (after_calls [Set_model_context (Some example_context)] (clear_baseTemplate example_obj)) =
     (Inl (CLAException ''WLSDPLY-12303'' [''WLS'', ''WLS.json'', ''WLS_12213'']),
      (clear_baseTemplate example_obj)\<lparr>model_context := Some example_context\<rparr>)"
proof -
  have nb: "baseTemplate (domain_typedef (clear_baseTemplate example_obj)) = None"
    by (simp add: clear_baseTemplate_def)
  have v: "version_typedef_name (clear_baseTemplate example_obj) = ''WLS_12213''"
    by (simp add: clear_baseTemplate_def example_obj_def)
  from missing_baseTemplate_found_by_resolve_paths
         [of example_helper "[]" "[]" "''WLS.json''" "''createDomain''" "''WLS''"
             "drop_baseTemplate example_doc" "clear_baseTemplate example_obj" example_context "[]"]
       example_init_no_base nb v
  have s: "set_model_context (Some example_context) (clear_baseTemplate example_obj) =
     (Inl (CLAException ''WLSDPLY-12303'' [''WLS'', ''WLS.json'', ''WLS_12213'']),
      (clear_baseTemplate example_obj)\<lparr>model_context := Some example_context\<rparr>)"
    by simp
  have g1: "get_base_template (clear_baseTemplate example_obj) =
     (Inl (CLAException ''WLSDPLY-12302'' []), clear_baseTemplate example_obj)"
    by (simp add: get_base_template_def after_resolve_paths_def resolve_paths_def
        clear_baseTemplate_def example_obj_def)
  have ac: "after_calls [Set_model_context (Some example_context)] (clear_baseTemplate example_obj) =
      (clear_baseTemplate example_obj)\<lparr>model_context := Some example_context\<rparr>"
    by (simp add: s)
  have g2: "get_base_template (after_calls [Set_model_context (Some example_context)] (clear_baseTemplate example_obj)) =
     (Inl (CLAException ''WLSDPLY-12303'' [''WLS'', ''WLS.json'', ''WLS_12213'']),
      (clear_baseTemplate example_obj)\<lparr>model_context := Some example_context\<rparr>)"
    unfolding ac
    by (simp add: get_base_template_def after_resolve_paths_def resolve_paths_def
        clear_baseTemplate_def example_obj_def)
  from example_init_no_base nb s g1 g2 show ?thesis by simp
qed

subsection \<open>The RCU schemas before path resolution\<close>

text \<open>
  C4. The code at the input of a document whose selected definition has no \<open>rcuSchemas\<close>:
  the constructor returns the object; \<open>get_rcu_schemas\<close> called on it before paths are
  resolved raises \<open>KeyError\<close> where the claim has the empty list, while \<open>requires_rcu\<close>
  answers false; after path resolution \<open>get_rcu_schemas\<close> returns the empty list.
\<close>

theorem get_rcu_schemas_absent_before_resolution:
  "DomainTypedef_init example_helper [] [] ''WLS.json'' ''createDomain'' ''WLS'' example_doc
     = Some (Inr example_obj) \<and>
   rcuSchemas (domain_typedef example_obj) = None \<and>
   get_rcu_schemas example_obj = Inl (KeyError ''rcuSchemas'') \<and>
   requires_rcu example_obj = False \<and>
   resolve_paths (example_obj\<lparr>model_context := Some example_context\<rparr>) = (Inr (), example_resolved) \<and>
   get_rcu_schemas example_resolved = Inr [] \<and>
   requires_rcu example_resolved = False"
proof -
  have "rcuSchemas (domain_typedef example_obj) = None"
    by (simp add: example_obj_def example_definition_def)
  moreover from this have "get_rcu_schemas example_obj = Inl (KeyError ''rcuSchemas'')"
    by (simp add: get_rcu_schemas_def subscript_def)
  moreover have "requires_rcu example_obj = False"
    by (simp add: requires_rcu_def example_obj_def example_definition_def)
  moreover have r: "rcuSchemas (domain_typedef example_resolved) = Some []"
    by (simp add: example_resolved_eq resolve_definition_def example_definition_def)
  moreover from r have "get_rcu_schemas example_resolved = Inr []"
    by (simp add: get_rcu_schemas_def subscript_def)
  moreover from r have "requires_rcu example_resolved = False"
    by (simp add: requires_rcu_def)
  ultimately show ?thesis
    using example_init example_resolve by simp
qed

subsection \<open>The Restricted JRF test looks at the first template\<close>

text \<open>
  C5. When the extension templates (as \<open>get_extension_templates\<close> returns them) start with
  a template, the result of \<open>is_restricted_jrf_domain_type\<close> is whether that first template
  matches the Restricted JRF pattern, whatever follows it in the list; on the empty list
  the method reports no match (it returns Python's \<open>None\<close>).
\<close>

theorem is_restricted_jrf_first_template_only:
  "(get_extension_templates self = (Inr (template # rest), self') \<longrightarrow>
    re RESTRICTED_JRF_TEMPLATE_REGEX template = Inr matched \<longrightarrow>
      is_restricted_jrf_domain_type re self = (Inr (Some matched), self')) \<and>
   (get_extension_templates self = (Inr [], self') \<longrightarrow>
      is_restricted_jrf_domain_type re self = (Inr None, self'))"
  by (simp add: is_restricted_jrf_domain_type_def)

theorem is_restricted_jrf_first_template_only_witness:
  "is_restricted_jrf_domain_type example_re example_resolved = (Inr (Some True), example_resolved) \<and>
   is_restricted_jrf_domain_type example_re example_obj_restricted_second =
     (Inr (Some False), snd (resolve_paths example_obj_restricted_second)) \<and>
   is_restricted_jrf_domain_type example_re example_obj_no_templates =
     (Inr None, snd (resolve_paths example_obj_no_templates))"
  using
    is_restricted_jrf_first_template_only
      [of example_resolved "''Oracle Restricted JRF''" "[''/u01/em.jar'']" example_resolved
          example_re True]
    is_restricted_jrf_first_template_only
      [of example_obj_restricted_second "''/u01/em.jar''" "[''Oracle Restricted JRF'']"
          "snd (resolve_paths example_obj_restricted_second)" example_re False]
    is_restricted_jrf_first_template_only
      [of example_obj_no_templates "''x''" "[]"
          "snd (resolve_paths example_obj_no_templates)" example_re False]
    example_templates example_templates_restricted_second example_templates_none
    example_re_restricted
  by simp

subsection \<open>Filtering\<close>

text \<open>
  C6. \<open>is_filtered\<close> returns false when the folder path is not a key of the filter table;
  when it is a key and no name is given it returns true, whatever the patterns; when a
  name is given and every pattern of the key's list is a regular expression (\<open>re.match\<close>
  answers for it), it returns true iff some pattern of the list matches the name, and false
  when none does; and the patterns are tried in list order, the first match ending the
  search: a match after patterns that do not match gives true whatever follows it.
\<close>

theorem is_filtered_first_match:
  "(map_of (discover_filters self) key = None \<longrightarrow> is_filtered re self key name = Inr False) \<and>
   (map_of (discover_filters self) key = Some filters \<longrightarrow>
      is_filtered re self key None = Inr True) \<and>
   (map_of (discover_filters self) key = Some filters \<longrightarrow>
    (\<forall>p \<in> set filters. \<exists>b. re p n = Inr b) \<longrightarrow>
      is_filtered re self key (Some n) = Inr (\<exists>p \<in> set filters. re p n = Inr True)) \<and>
   (map_of (discover_filters self) key = Some (before @ p # rest) \<longrightarrow>
    (\<forall>q \<in> set before. re q n = Inr False) \<longrightarrow> re p n = Inr True \<longrightarrow>
      is_filtered re self key (Some n) = Inr True)"
  by (simp add: is_filtered_def filter_loop_all_valid filter_loop_first_match)

theorem is_filtered_first_match_witness:
  "is_filtered example_re example_obj ''/JMSServer'' (Some ''MyDS1'') = Inr False \<and>
   is_filtered example_re example_obj ''/JDBCSystemResource'' None = Inr True \<and>
   is_filtered example_re example_obj ''/JDBCSystemResource'' (Some ''MyDS1'') = Inr True \<and>
   is_filtered example_re example_obj ''/JDBCSystemResource'' (Some ''OtherDS'') = Inr False \<and>
   is_filtered example_re example_obj_two_filters ''/JDBCSystemResource'' (Some ''MyDS1'') = Inr True"
proof -
  have f: "map_of (discover_filters example_obj) ''/JDBCSystemResource'' = Some [''^MyDS.*'']"
      "map_of (discover_filters example_obj) ''/JMSServer'' = None"
    by (simp_all add: example_obj_def)
  have g: "map_of (discover_filters example_obj_two_filters) ''/JDBCSystemResource'' =
      Some ([''^Other$''] @ ''^MyDS.*'' # [''(''])"
    by (simp add: example_obj_two_filters_def)
  show ?thesis
    using
      is_filtered_first_match
        [of example_obj "''/JMSServer''" example_re "Some ''MyDS1''" "[]" "''x''" "[]" "''x''" "[]"]
      is_filtered_first_match
        [of example_obj "''/JDBCSystemResource''" example_re None "[''^MyDS.*'']" "''MyDS1''"
            "[]" "''x''" "[]"]
      is_filtered_first_match
        [of example_obj "''/JDBCSystemResource''" example_re None "[''^MyDS.*'']" "''OtherDS''"
            "[]" "''x''" "[]"]
      is_filtered_first_match
        [of example_obj_two_filters "''/JDBCSystemResource''" example_re None "[]" "''MyDS1''"
            "[''^Other$'']" "''^MyDS.*''" "[''('']"]
      f g example_re_filters
    by auto
qed

subsection \<open>Translating the legacy system elements\<close>

text \<open>
  C9. For a \<open>system-elements\<close> dictionary (its items in iteration order, the keys distinct):
  when every key is in the fixed table, the translation returns the items in the same
  order, each key replaced by the folder path the table maps it to and each pattern list
  unchanged; when some key is not in the table, the translation raises for such a key
  (the first one met) the exception \<open>WLSDPLY-12316\<close> naming the key, a \<open>ConfigError\<close>, which
  is a \<open>DiscoverException\<close> when the program is \<open>discoverDomain\<close> and a \<open>CreateException\<close>
  otherwise: two different errors.
\<close>

theorem translate_system_elements_legacy_keys:
  "(distinct (map fst se) \<longrightarrow>
    (\<forall>k \<in> fst ` set se. map_of key_mapping_table k \<noteq> None) \<longrightarrow>
      (\<exists>r. translate_system_elements prog filename se = Inr r \<and>
           list_all2 (\<lambda>(k, v) (k', v'). map_of key_mapping_table k = Some k' \<and> v' = v) se r)) \<and>
   (k \<in> fst ` set se \<longrightarrow> map_of key_mapping_table k = None \<longrightarrow>
      (\<exists>k'. k' \<in> fst ` set se \<and> map_of key_mapping_table k' = None \<and>
         translate_system_elements prog filename se =
           Inl (if prog = DISCOVER_DOMAIN
                then DiscoverException ''WLSDPLY-12316'' [k', filename]
                else CreateException ''WLSDPLY-12316'' [k', filename]) \<and>
         ConfigError (if prog = DISCOVER_DOMAIN
                then DiscoverException ''WLSDPLY-12316'' [k', filename]
                else CreateException ''WLSDPLY-12316'' [k', filename]) \<and>
         DiscoverException ''WLSDPLY-12316'' [k', filename] \<noteq>
           CreateException ''WLSDPLY-12316'' [k', filename]))"
proof (intro conjI impI)
  assume "distinct (map fst se)" and "\<forall>k \<in> fst ` set se. map_of key_mapping_table k \<noteq> None"
  from translate_loop_known [OF this, of "[]" prog filename]
  show "\<exists>r. translate_system_elements prog filename se = Inr r \<and>
           list_all2 (\<lambda>(k, v) (k', v'). map_of key_mapping_table k = Some k' \<and> v' = v) se r"
    by (simp add: translate_system_elements_def)
next
  assume "k \<in> fst ` set se" and "map_of key_mapping_table k = None"
  from translate_loop_unknown [OF this, of prog filename "[]"]
  show "\<exists>k'. k' \<in> fst ` set se \<and> map_of key_mapping_table k' = None \<and>
         translate_system_elements prog filename se =
           Inl (if prog = DISCOVER_DOMAIN
                then DiscoverException ''WLSDPLY-12316'' [k', filename]
                else CreateException ''WLSDPLY-12316'' [k', filename]) \<and>
         ConfigError (if prog = DISCOVER_DOMAIN
                then DiscoverException ''WLSDPLY-12316'' [k', filename]
                else CreateException ''WLSDPLY-12316'' [k', filename]) \<and>
         DiscoverException ''WLSDPLY-12316'' [k', filename] \<noteq>
           CreateException ''WLSDPLY-12316'' [k', filename]"
    by (auto simp: translate_system_elements_def)
qed

theorem translate_system_elements_legacy_keys_witness:
  "translate_system_elements ''createDomain'' ''WLS.json''
       [(''datasources'', [''^MyDS.*'']), (''jms'', [])]
     = Inr [(''/JDBCSystemResource'', [''^MyDS.*'']), (''/JMSSystemResource'', [])] \<and>
   translate_system_elements ''discoverDomain'' ''WLS.json''
       [(''datasources'', [''^MyDS.*'']), (''servers'', [])]
     = Inl (DiscoverException ''WLSDPLY-12316'' [''servers'', ''WLS.json'']) \<and>
   translate_system_elements ''createDomain'' ''WLS.json''
       [(''datasources'', [''^MyDS.*'']), (''servers'', [])]
     = Inl (CreateException ''WLSDPLY-12316'' [''servers'', ''WLS.json''])"
proof -
  have t: "map_of key_mapping_table ''datasources'' = Some ''/JDBCSystemResource''"
      "map_of key_mapping_table ''jms'' = Some ''/JMSSystemResource''"
      "map_of key_mapping_table ''servers'' = None"
    by (simp_all add: key_mapping_table_def)
  have a: "translate_system_elements ''createDomain'' ''WLS.json''
       [(''datasources'', [''^MyDS.*'']), (''jms'', [])]
     = Inr [(''/JDBCSystemResource'', [''^MyDS.*'']), (''/JMSSystemResource'', [])]"
    using translate_system_elements_legacy_keys
            [of "[(''datasources'', [''^MyDS.*'']), (''jms'', [])]" "''createDomain''"
                "''WLS.json''" "''x''"] t
    by (auto simp: list_all2_Cons1)
  have b: "translate_system_elements ''discoverDomain'' ''WLS.json''
       [(''datasources'', [''^MyDS.*'']), (''servers'', [])]
     = Inl (DiscoverException ''WLSDPLY-12316'' [''servers'', ''WLS.json''])"
    using translate_system_elements_legacy_keys
            [of "[(''datasources'', [''^MyDS.*'']), (''servers'', [])]" "''discoverDomain''"
                "''WLS.json''" "''servers''"] t
    by (auto simp: DISCOVER_DOMAIN_def)
  have c: "translate_system_elements ''createDomain'' ''WLS.json''
       [(''datasources'', [''^MyDS.*'']), (''servers'', [])]
     = Inl (CreateException ''WLSDPLY-12316'' [''servers'', ''WLS.json''])"
    using translate_system_elements_legacy_keys
            [of "[(''datasources'', [''^MyDS.*'']), (''servers'', [])]" "''createDomain''"
                "''WLS.json''" "''servers''"] t
    by (auto simp: DISCOVER_DOMAIN_def)
  from a b c show ?thesis by simp
qed

subsection \<open>Setting the model context a second time\<close>

text \<open>
  C10. Once a model context is stored in the object, a call of \<open>set_model_context\<close>, with
  any argument (the same context, another one, or \<open>None\<close>), raises nothing and returns
  the object as it was: the stored context is kept and paths are not resolved again.
\<close>

theorem set_model_context_absorbing:
  "model_context self = Some ctx \<Longrightarrow> set_model_context new_context self = (Inr (), self)"
  by (simp add: set_model_context_def)

theorem set_model_context_absorbing_witness:
  "model_context (example_obj\<lparr>model_context := Some example_context\<rparr>) = Some example_context \<and>
   set_model_context (Some example_other_context)
       (example_obj\<lparr>model_context := Some example_context\<rparr>)
     = (Inr (), example_obj\<lparr>model_context := Some example_context\<rparr>) \<and>
   set_model_context None example_resolved = (Inr (), example_resolved)"
proof -
  have a: "model_context (example_obj\<lparr>model_context := Some example_context\<rparr>) = Some example_context"
    by simp
  have b: "model_context example_resolved = Some example_context"
    by (simp add: example_resolved_eq)
  show ?thesis
    using a set_model_context_absorbing [OF a, of "Some example_other_context"]
      set_model_context_absorbing [OF b, of None]
    by simp
qed

end
